theory Spec2Isabelle
  imports Main
begin

section \<open>Events, as the loop reads them through the bus.Event interface\<close>

text \<open>
  Package bus is not among the sources; an event is what \<open>DisplayEvents\<close> calls on it:
  \<open>Type()\<close>, \<open>Value()\<close>, \<open>IsEnd()\<close>, and \<open>ExitCode()\<close> after the assertion to
  \<open>*bus.ErrorEvent\<close>.

  The event kinds are those named in the switch of \<open>DisplayEvents\<close>, in the order of their
  first appearance there; \<open>OtherType\<close> stands for every kind the switch does not name (its
  \<open>default\<close> branch).
\<close>

datatype event_type =
    NewVersionAvailable
  | NewMessageDetected
  | ValidateFinishedSuccessfully
  | NewErrorDetected
  | PullDockerImage
  | CopyImage
  | ReadImage
  | FetchImage
  | CatalogerStarted
  | ScanStarted
  | ScanFinished
  | ValidateFinishedWithViolations
  | CatalogerFinished
  | ReadLayer
  | OtherType nat

type_synonym err = string

text \<open>
  A value implementing presenter.Presenter: what \<open>Title()\<close> and \<open>Footer()\<close> return and
  the error returned by \<open>Present(os.Stdout)\<close> (\<open>None\<close> for nil).
\<close>

record presenter =
  Title :: string
  Present :: "err option"
  Footer :: string

text \<open>\<open>e.Value()\<close> is an \<open>interface{}\<close>: a string, a presenter, or nil.\<close>

datatype val = StringVal string | PresenterVal presenter | NilVal

text \<open>
  The dynamic type behind the interface: a \<open>*bus.ErrorEvent\<close> with the result of its
  \<open>ExitCode()\<close>, or any other implementation of bus.Event.
\<close>

datatype concrete = ErrorEvent int | BaseEvent

record event =
  Type :: event_type
  Value :: val
  IsEnd :: bool
  concrete :: concrete

text \<open>
  \<open>bus.EventChan()\<close>: the events that will be delivered, in order, and whether the channel
  is closed after the last of them. A \<open>range\<close> over a channel that is empty and not closed
  blocks.
\<close>

record event_chan =
  queued :: "event list"
  chClosed :: bool

section \<open>The terminal frame, the wait group and the effects of a run\<close>

text \<open>The styled texts the loop renders: \<open>color.Magenta.Sprint\<close>, \<open>color.Bold.Sprint\<close> and
  the line \<open>"[Error] " + value\<close> with the tag in red.\<close>

datatype styled = Magenta val | Bold val | RedError val

text \<open>
  The effects of a run in program order. \<open>ARender k i t r\<close>: while handling an event of
  kind \<open>k\<close>, line \<open>i\<close> of the frame was rendered with text \<open>t\<close> and the call returned \<open>r\<close>.
  \<open>AWait n\<close>: \<open>wg.Wait()\<close> returned, having joined \<open>n\<close> outstanding sub-tasks.
  \<open>AHandler k i v r\<close>: the handler of kind \<open>k\<close> was called on line \<open>i\<close> with value \<open>v\<close>
  and returned \<open>r\<close>.
\<close>

datatype action =
    AHideCursor
  | AShowCursor
  | AAppend
  | ARender event_type nat styled "err option"
  | AWait nat
  | AHandler event_type nat val "err option"
  | APresent presenter
  | AFprintln string
  | ALogError err

record state =
  displayErr :: "err option"
  exitCode :: int
  frame :: "styled option list"
  cursorHidden :: bool
  wg :: nat
  trace :: "action list"

text \<open>
  What the collaborators do on a run: the result of rendering a text on a line, the result
  of a handler call, and \<open>ExitCode()\<close> of the error built by
  \<open>cberr.NewError(cberr.DisplayErr, msg, displayErr)\<close>, as a function of \<open>displayErr\<close>.
\<close>

record env =
  renderErr :: "nat \<Rightarrow> styled \<Rightarrow> err option"
  handlerErr :: "event_type \<Rightarrow> nat \<Rightarrow> val \<Rightarrow> err option"
  displayExitCode :: "err \<Rightarrow> int"

text \<open>
  Modelled from the spec: package frame is not among the sources. \<open>Append\<close> creates a new,
  empty line after all existing lines and returns its handle; no output is produced until
  \<open>Render\<close> is called on the handle.
\<close>

definition fr_Append :: "state \<Rightarrow> state" where
  "fr_Append s = s\<lparr>frame := frame s @ [None], trace := trace s @ [AAppend]\<rparr>"

text \<open>
  Modelled from the spec: package frame is not among the sources. \<open>fr.Append().Render(t)\<close>
  writes \<open>t\<close> into the new line and fails with an error if the terminal write fails.
\<close>

definition Append_Render :: "env \<Rightarrow> event_type \<Rightarrow> styled \<Rightarrow> state \<Rightarrow> err option \<times> state" where
  "Append_Render en k t s =
     (let i = length (frame s);
          r = renderErr en i t
      in (r, s\<lparr>frame := frame s @ [if r = None then Some t else None],
               trace := trace s @ [AAppend, ARender k i t r]\<rparr>))"

text \<open>
  Modelled from the spec: package eventhandler is not among the sources. A handler is given
  the frame's next line and the event's value, registers a sub-task against the wait group,
  returns without blocking, and surfaces a failure of the sub-task's render as its error.
\<close>

definition Handler :: "env \<Rightarrow> event_type \<Rightarrow> val \<Rightarrow> state \<Rightarrow> err option \<times> state" where
  "Handler en k v s =
     (let i = length (frame s);
          r = handlerErr en k i v
      in (r, s\<lparr>frame := frame s @ [None], wg := wg s + 1,
               trace := trace s @ [AAppend, AHandler k i v r]\<rparr>))"

text \<open>\<open>wg.Wait()\<close> returns once every registered sub-task has finished.\<close>

definition wg_Wait :: "state \<Rightarrow> state" where
  "wg_Wait s = s\<lparr>wg := 0, trace := trace s @ [AWait (wg s)]\<rparr>"

section \<open>The body of the event loop\<close>

datatype flow = Next | Break | Panic

text \<open>Lines 111 to 113: the test every case but the ignored ones ends with.\<close>

definition endOfIteration :: "event \<Rightarrow> state \<Rightarrow> flow \<times> state" where
  "endOfIteration e s = (if IsEnd e \<or> displayErr s \<noteq> None then Break else Next, s)"

definition renderCase :: "env \<Rightarrow> event \<Rightarrow> styled \<Rightarrow> state \<Rightarrow> state" where
  "renderCase en e t s =
     (case Append_Render en (Type e) t s of (r, s') \<Rightarrow> s'\<lparr>displayErr := r\<rparr>)"

definition handlerCase :: "env \<Rightarrow> event \<Rightarrow> state \<Rightarrow> flow \<times> state" where
  "handlerCase en e s =
     (case Handler en (Type e) (Value e) s of (r, s') \<Rightarrow> endOfIteration e (s'\<lparr>displayErr := r\<rparr>))"

definition errorCase :: "env \<Rightarrow> event \<Rightarrow> state \<Rightarrow> flow \<times> state" where
  "errorCase en e s =
     (let s1 = renderCase en e (RedError (Value e)) s
      in case concrete e of
           ErrorEvent c \<Rightarrow> endOfIteration e (s1\<lparr>exitCode := c\<rparr>)
         | BaseEvent \<Rightarrow> (Panic, s1))"

definition presentResults :: "presenter \<Rightarrow> state \<Rightarrow> state" where
  "presentResults pres s =
     (let s1 = s\<lparr>trace := trace s @ [APresent pres]\<rparr>
      in case Present pres of
           None \<Rightarrow> s1
         | Some er \<Rightarrow> s1\<lparr>displayErr := Some (''failed to show vulnerability results: '' @ er)\<rparr>)"

definition finishedCase :: "env \<Rightarrow> event \<Rightarrow> state \<Rightarrow> flow \<times> state" where
  "finishedCase en e s =
     (let s1 = wg_Wait s
      in case Value e of
           PresenterVal pres \<Rightarrow>
             (let s2 = fr_Append s1;
                  s3 = renderCase en e (Bold (StringVal (Title pres))) s2;
                  s4 = fr_Append s3;
                  s5 = presentResults pres s4;
                  s6 = (if Footer pres \<noteq> []
                        then renderCase en e (Bold (StringVal (Footer pres))) s5
                        else s5)
              in endOfIteration e s6)
         | _ \<Rightarrow> (Panic, s1))"

definition loopBody :: "env \<Rightarrow> event \<Rightarrow> state \<Rightarrow> flow \<times> state" where
  "loopBody en e s =
     (case Type e of
        NewVersionAvailable \<Rightarrow> endOfIteration e (renderCase en e (Magenta (Value e)) s)
      | NewMessageDetected \<Rightarrow> endOfIteration e (renderCase en e (Bold (Value e)) (wg_Wait s))
      | ValidateFinishedSuccessfully \<Rightarrow>
          endOfIteration e (renderCase en e (Bold (Value e)) (wg_Wait s))
      | NewErrorDetected \<Rightarrow> errorCase en e s
      | PullDockerImage \<Rightarrow> handlerCase en e s
      | CopyImage \<Rightarrow> handlerCase en e s
      | ReadImage \<Rightarrow> handlerCase en e s
      | FetchImage \<Rightarrow> handlerCase en e s
      | CatalogerStarted \<Rightarrow> handlerCase en e s
      | ScanStarted \<Rightarrow> handlerCase en e s
      | ScanFinished \<Rightarrow> finishedCase en e s
      | ValidateFinishedWithViolations \<Rightarrow> finishedCase en e s
      | CatalogerFinished \<Rightarrow> (Next, s)
      | ReadLayer \<Rightarrow> (Next, s)
      | OtherType n \<Rightarrow> (Next, s))"

section \<open>The loop, the deferred cleanup and DisplayEvents\<close>

text \<open>
  How the \<open>range\<close> loop ended: by \<open>break eventLoop\<close>, because the channel was closed and
  empty, by a panic, or not at all (the channel is empty and stays open).
\<close>

datatype loop_end = Broke | Drained | Panicked | Blocked

text \<open>The loop returns how it ended, the events it never received, and the state.\<close>

fun eventLoop :: "env \<Rightarrow> bool \<Rightarrow> event list \<Rightarrow> state \<Rightarrow> loop_end \<times> event list \<times> state" where
  "eventLoop en cl [] s = (if cl then Drained else Blocked, [], s)"
| "eventLoop en cl (e # es) s =
     (case loopBody en e s of
        (Next, s') \<Rightarrow> eventLoop en cl es s'
      | (Break, s') \<Rightarrow> (Broke, es, s')
      | (Panic, s') \<Rightarrow> (Panicked, es, s'))"

text \<open>The state after \<open>fr := frame.NewFrame(os.Stderr)\<close> and \<open>fr.HideCursor()\<close>.\<close>

definition initial :: state where
  "initial = \<lparr>displayErr = None, exitCode = 0, frame = [], cursorHidden = True, wg = 0,
              trace = [AHideCursor]\<rparr>"

text \<open>The deferred function up to, and without, its last statement.\<close>

definition cleanup :: "env \<Rightarrow> state \<Rightarrow> state" where
  "cleanup en s =
     (let s1 = fr_Append s;
          s2 = s1\<lparr>cursorHidden := False, trace := trace s1 @ [AShowCursor]\<rparr>
      in case displayErr s2 of
           None \<Rightarrow> s2
         | Some d \<Rightarrow>
             s2\<lparr>exitCode := displayExitCode en d,
                trace := trace s2 @ [AFprintln ''Failed to show the ui during the whole process'',
                                     ALogError d]\<rparr>)"

text \<open>
  How the call ends: it returns, the process exits with a code (\<open>os.Exit\<close> in the deferred
  function), the panic of the loop goes on to the caller, or the call never ends.
\<close>

datatype outcome = Returned | Exited int | Panics | BlocksForever

record result =
  outcome :: outcome
  loopEnd :: loop_end
  unconsumed :: "event list"
  afterLoop :: state
  final :: state

text \<open>
  A deferred function runs when the function returns and when it panics; \<open>os.Exit\<close> in it
  ends the process whether or not a panic is under way. A blocked loop never reaches it.
\<close>

definition DisplayEvents :: "env \<Rightarrow> event_chan \<Rightarrow> result" where
  "DisplayEvents en ch =
     (case eventLoop en (chClosed ch) (queued ch) initial of
        (Blocked, rest, s) \<Rightarrow>
          \<lparr>outcome = BlocksForever, loopEnd = Blocked, unconsumed = rest, afterLoop = s,
           final = s\<rparr>
      | (le, rest, s) \<Rightarrow>
          (let s' = cleanup en s
           in \<lparr>outcome = (if exitCode s' > 0 then Exited (exitCode s')
                          else if le = Panicked then Panics else Returned),
               loopEnd = le, unconsumed = rest, afterLoop = s, final = s'\<rparr>))"

section \<open>Vocabulary of the specification\<close>

text \<open>The kinds the switch skips with \<open>continue\<close>: the two it names and every kind it does not.\<close>

definition ignoredKind :: "event_type \<Rightarrow> bool" where
  "ignoredKind k = (case k of CatalogerFinished \<Rightarrow> True | ReadLayer \<Rightarrow> True
                    | OtherType n \<Rightarrow> True | _ \<Rightarrow> False)"

text \<open>The kinds whose case starts with \<open>wg.Wait()\<close>.\<close>

definition syncKind :: "event_type \<Rightarrow> bool" where
  "syncKind k = (k = NewMessageDetected \<or> k = ValidateFinishedSuccessfully
                 \<or> k = ScanFinished \<or> k = ValidateFinishedWithViolations)"

definition finishedKind :: "event_type \<Rightarrow> bool" where
  "finishedKind k = (k = ScanFinished \<or> k = ValidateFinishedWithViolations)"

text \<open>The kinds handed to a handler of package eventhandler.\<close>

definition handlerKind :: "event_type \<Rightarrow> bool" where
  "handlerKind k = (k = PullDockerImage \<or> k = CopyImage \<or> k = ReadImage \<or> k = FetchImage
                    \<or> k = CatalogerStarted \<or> k = ScanStarted)"

text \<open>The event is a \<open>*bus.ErrorEvent\<close>; its value implements presenter.Presenter.\<close>

definition isErrorEvent :: "event \<Rightarrow> bool" where
  "isErrorEvent e = (case concrete e of ErrorEvent c \<Rightarrow> True | BaseEvent \<Rightarrow> False)"

definition hasPresenter :: "event \<Rightarrow> bool" where
  "hasPresenter e = (case Value e of PresenterVal p \<Rightarrow> True | _ \<Rightarrow> False)"

text \<open>The type assertion the loop makes on an event of this kind, if any, succeeds.\<close>

definition wellTyped :: "event \<Rightarrow> bool" where
  "wellTyped e =
     ((Type e = NewErrorDetected \<longrightarrow> isErrorEvent e)
      \<and> (finishedKind (Type e) \<longrightarrow> hasPresenter e))"

text \<open>The value is a presenter whose \<open>Present\<close> returns no error.\<close>

definition presentsWithoutError :: "event \<Rightarrow> bool" where
  "presentsWithoutError e =
     (case Value e of PresenterVal p \<Rightarrow> Present p = None | _ \<Rightarrow> False)"

text \<open>
  The loop receives every event of the list and goes on after each of them: the state in
  which it receives the next event, if it gets that far.
\<close>

fun consumeAll :: "env \<Rightarrow> event list \<Rightarrow> state \<Rightarrow> state option" where
  "consumeAll en [] s = Some s"
| "consumeAll en (e # es) s =
     (case loopBody en e s of (Next, s') \<Rightarrow> consumeAll en es s' | _ \<Rightarrow> None)"

text \<open>
  A barrier that replays a trace: the number of sub-tasks registered and not yet waited
  for, starting from \<open>n\<close>.
\<close>

fun outstanding :: "nat \<Rightarrow> action list \<Rightarrow> nat" where
  "outstanding n [] = n"
| "outstanding n (AWait m # as) = outstanding 0 as"
| "outstanding n (AHandler k i v r # as) = outstanding (Suc n) as"
| "outstanding n (a # as) = outstanding n as"

text \<open>
  Every render made for an event of a synchronized kind happens when no registered sub-task
  is outstanding.
\<close>

fun waitsBeforeRender :: "nat \<Rightarrow> action list \<Rightarrow> bool" where
  "waitsBeforeRender n [] = True"
| "waitsBeforeRender n (ARender k i t r # as) =
     ((syncKind k \<longrightarrow> n = 0) \<and> waitsBeforeRender n as)"
| "waitsBeforeRender n (a # as) = waitsBeforeRender (outstanding n [a]) as"

definition barrierInv :: "state \<Rightarrow> bool" where
  "barrierInv s = (waitsBeforeRender 0 (trace s) \<and> outstanding 0 (trace s) = wg s)"

text \<open>
  An event that is not of the error kind and whose presenter, when the loop asks for one,
  is there and presents without error.
\<close>

definition quiet :: "event \<Rightarrow> bool" where
  "quiet e = (Type e \<noteq> NewErrorDetected
     \<and> (finishedKind (Type e) \<longrightarrow> presentsWithoutError e))"

text \<open>No display error is pending and the cursor has not been shown again.\<close>

definition calm :: "state \<Rightarrow> bool" where
  "calm s = (displayErr s = None \<and> AShowCursor \<notin> set (trace s))"

section \<open>Concrete runs\<close>

text \<open>
  Collaborators: none fails; every frame render fails; every handler fails; the render of
  the title \<open>Results\<close> fails. In all of them the display error exits with code 1.
\<close>

definition envOk :: env where
  "envOk = \<lparr>renderErr = (\<lambda>i t. None), handlerErr = (\<lambda>k i v. None),
            displayExitCode = (\<lambda>d. 1)\<rparr>"

definition envBrokenPipe :: env where
  "envBrokenPipe = \<lparr>renderErr = (\<lambda>i t. Some ''broken pipe''), handlerErr = (\<lambda>k i v. None),
                    displayExitCode = (\<lambda>d. 1)\<rparr>"

definition envHandlerFails :: env where
  "envHandlerFails = \<lparr>renderErr = (\<lambda>i t. None), handlerErr = (\<lambda>k i v. Some ''broken pipe''),
                      displayExitCode = (\<lambda>d. 1)\<rparr>"

definition envTitleFails :: env where
  "envTitleFails = \<lparr>renderErr = (\<lambda>i t. if t = Bold (StringVal ''Results'')
                                          then Some ''broken pipe'' else None),
                    handlerErr = (\<lambda>k i v. None), displayExitCode = (\<lambda>d. 1)\<rparr>"

definition baseEvent :: "event_type \<Rightarrow> val \<Rightarrow> bool \<Rightarrow> event" where
  "baseEvent k v b = \<lparr>Type = k, Value = v, IsEnd = b, concrete = BaseEvent\<rparr>"

definition errorEvent :: "val \<Rightarrow> int \<Rightarrow> bool \<Rightarrow> event" where
  "errorEvent v c b = \<lparr>Type = NewErrorDetected, Value = v, IsEnd = b, concrete = ErrorEvent c\<rparr>"

definition failingReport :: presenter where
  "failingReport = \<lparr>Title = ''Results'', Present = Some ''stdout closed'', Footer = ''3 issues''\<rparr>"

definition twoErrors :: event_chan where
  "twoErrors = \<lparr>queued = [errorEvent (StringVal ''disk full'') 74 False,
                          errorEvent (StringVal ''denied'') 3 True],
                chClosed = True\<rparr>"

definition failingErrorRender :: event_chan where
  "failingErrorRender = \<lparr>queued = [errorEvent (StringVal ''disk full'') 74 True], chClosed = True\<rparr>"

definition terminalIgnored :: event_chan where
  "terminalIgnored = \<lparr>queued = [baseEvent CatalogerFinished NilVal True,
                                baseEvent NewVersionAvailable (StringVal ''v2'') False],
                      chClosed = True\<rparr>"

definition terminalIgnoredOpen :: event_chan where
  "terminalIgnoredOpen = \<lparr>queued = [baseEvent CatalogerFinished NilVal True], chClosed = False\<rparr>"

definition failingRegistration :: event_chan where
  "failingRegistration = \<lparr>queued = [baseEvent PullDockerImage (StringVal ''img'') False,
                                    baseEvent NewVersionAvailable (StringVal ''v2'') True],
                          chClosed = True\<rparr>"

definition lostErrors :: event_chan where
  "lostErrors = \<lparr>queued = [baseEvent ScanFinished (PresenterVal failingReport) True],
                 chClosed = True\<rparr>"

definition untypedError :: event_chan where
  "untypedError = \<lparr>queued = [baseEvent NewErrorDetected (StringVal ''disk full'') True],
                   chClosed = True\<rparr>"

definition untypedResult :: event_chan where
  "untypedResult = \<lparr>queued = [baseEvent ScanFinished (StringVal ''report'') True],
                    chClosed = True\<rparr>"

text \<open>The first scenario of the specification, on a channel that stays open.\<close>

definition scenario :: event_chan where
  "scenario = \<lparr>queued = [baseEvent ScanStarted (StringVal ''img'') False,
                         baseEvent NewMessageDetected (StringVal ''found 3 issues'') False]
                        @ [baseEvent ScanFinished
                             (PresenterVal \<lparr>Title = ''Results'', Present = None, Footer = ''''\<rparr>)
                             True],
               chClosed = False\<rparr>"

section \<open>Facts about one iteration\<close>

lemmas body_defs = loopBody_def endOfIteration_def renderCase_def handlerCase_def errorCase_def
  finishedCase_def presentResults_def Append_Render_def Handler_def wg_Wait_def fr_Append_def

lemmas fixture_defs = envOk_def envBrokenPipe_def envHandlerFails_def baseEvent_def errorEvent_def

lemmas run_defs = DisplayEvents_def initial_def cleanup_def body_defs Let_def

lemma body_exitCode:
  "Type e \<noteq> NewErrorDetected \<Longrightarrow> exitCode (snd (loopBody en e s)) = exitCode s"
  by (simp add: body_defs Let_def split: event_type.splits val.splits option.splits)

lemma ignored_body: "ignoredKind (Type e) \<Longrightarrow> loopBody en e s = (Next, s)"
  by (simp add: loopBody_def ignoredKind_def split: event_type.splits)

lemma handler_body: "handlerKind (Type e) \<Longrightarrow> loopBody en e s = handlerCase en e s"
  by (auto simp add: handlerKind_def loopBody_def)

lemma finished_body: "finishedKind (Type e) \<Longrightarrow> loopBody en e s = finishedCase en e s"
  by (auto simp add: finishedKind_def loopBody_def)

lemma endOfIteration_flow: "fst (endOfIteration e s) \<noteq> Panic"
  by (simp add: endOfIteration_def)

lemma handlerCase_flow: "fst (handlerCase en e s) \<noteq> Panic"
  by (simp add: handlerCase_def Handler_def Let_def endOfIteration_flow)

lemma errorCase_flow: "(fst (errorCase en e s) = Panic) = (\<not> isErrorEvent e)"
  by (cases "concrete e")
     (simp_all add: errorCase_def isErrorEvent_def Let_def endOfIteration_flow)

lemma finishedCase_flow: "(fst (finishedCase en e s) = Panic) = (\<not> hasPresenter e)"
  by (cases "Value e")
     (simp_all add: finishedCase_def hasPresenter_def Let_def endOfIteration_flow)

lemma body_Panic: "(fst (loopBody en e s) = Panic) = (\<not> wellTyped e)"
proof (cases "Type e")
  case NewErrorDetected
  then show ?thesis
    by (simp add: loopBody_def wellTyped_def finishedKind_def errorCase_flow)
next
  case ScanFinished
  then show ?thesis
    by (simp add: loopBody_def wellTyped_def finishedKind_def finishedCase_flow)
next
  case ValidateFinishedWithViolations
  then show ?thesis
    by (simp add: loopBody_def wellTyped_def finishedKind_def finishedCase_flow)
qed (simp_all add: loopBody_def wellTyped_def finishedKind_def endOfIteration_flow handlerCase_flow)

lemma terminal_body:
  "IsEnd e \<Longrightarrow> \<not> ignoredKind (Type e) \<Longrightarrow> fst (loopBody en e s) \<noteq> Next"
  by (simp add: body_defs ignoredKind_def Let_def
      split: event_type.splits val.splits option.splits concrete.splits)

lemma errorCase_typed:
  "concrete e = ErrorEvent c \<Longrightarrow>
   errorCase en e s =
     (if IsEnd e \<or> renderErr en (length (frame s)) (RedError (Value e)) \<noteq> None
      then Break else Next,
      s\<lparr>frame := frame s @ [if renderErr en (length (frame s)) (RedError (Value e)) = None
                             then Some (RedError (Value e)) else None],
        trace := trace s @ [AAppend, ARender (Type e) (length (frame s)) (RedError (Value e))
                             (renderErr en (length (frame s)) (RedError (Value e)))],
        displayErr := renderErr en (length (frame s)) (RedError (Value e)),
        exitCode := c\<rparr>)"
  by (simp add: errorCase_def renderCase_def Append_Render_def endOfIteration_def Let_def)

lemma sync_body_waits_first:
  "syncKind (Type e) \<Longrightarrow>
   take (Suc (length (trace s))) (trace (snd (loopBody en e s))) = trace s @ [AWait (wg s)]"
  by (auto simp add: syncKind_def body_defs Let_def split: val.splits option.splits)

section \<open>Facts about the loop, the cleanup and the whole call\<close>

lemma loop_exitCode:
  "\<forall>e\<in>set es. Type e \<noteq> NewErrorDetected \<Longrightarrow>
   exitCode (snd (snd (eventLoop en cl es s))) = exitCode s"
proof (induction es arbitrary: s)
  case Nil
  then show ?case by simp
next
  case (Cons e es)
  have b: "exitCode (snd (loopBody en e s)) = exitCode s"
    using Cons.prems by (simp add: body_exitCode)
  obtain f s' where fs: "loopBody en e s = (f, s')" by (cases "loopBody en e s")
  with b have "exitCode s' = exitCode s" by simp
  with Cons fs show ?case by (cases f) simp_all
qed

lemma eventLoop_consumed:
  "consumeAll en pre s = Some s' \<Longrightarrow> eventLoop en cl (pre @ rest) s = eventLoop en cl rest s'"
proof (induction pre arbitrary: s)
  case Nil
  then show ?case by simp
next
  case (Cons e pre)
  obtain f s1 where fs: "loopBody en e s = (f, s1)" by (cases "loopBody en e s")
  with Cons.prems have "f = Next" and "consumeAll en pre s1 = Some s'"
    by (cases f; simp)+
  with Cons.IH fs show ?case by simp
qed

lemma wellTyped_loop:
  "\<forall>e\<in>set es. wellTyped e \<Longrightarrow> fst (eventLoop en cl es s) \<noteq> Panicked"
proof (induction es arbitrary: s)
  case Nil
  then show ?case by simp
next
  case (Cons e es)
  obtain f s' where fs: "loopBody en e s = (f, s')" by (cases "loopBody en e s")
  with body_Panic [of en e s] Cons.prems have "f \<noteq> Panic" by simp
  with Cons fs show ?case by (cases f) simp_all
qed

lemma cleanup_exitCode: "displayErr s = None \<Longrightarrow> exitCode (cleanup en s) = exitCode s"
  by (simp add: cleanup_def fr_Append_def Let_def)

lemma cleanup_pending:
  "displayErr s = Some d \<Longrightarrow> exitCode (cleanup en s) = displayExitCode en d
     \<and> displayErr (cleanup en s) = Some d"
  by (simp add: cleanup_def fr_Append_def Let_def)

lemma cleanup_displayErr: "displayErr (cleanup en s) = displayErr s"
  by (simp add: cleanup_def fr_Append_def Let_def split: option.splits)

lemma DisplayEvents_not_blocked:
  "eventLoop en (chClosed ch) (queued ch) initial = (le, rest, s) \<Longrightarrow> le \<noteq> Blocked \<Longrightarrow>
   DisplayEvents en ch =
     \<lparr>outcome = (if exitCode (cleanup en s) > 0 then Exited (exitCode (cleanup en s))
                  else if le = Panicked then Panics else Returned),
      loopEnd = le, unconsumed = rest, afterLoop = s, final = cleanup en s\<rparr>"
  by (cases le) (simp_all add: DisplayEvents_def Let_def)

lemma DisplayEvents_loopEnd:
  "loopEnd (DisplayEvents en ch) = fst (eventLoop en (chClosed ch) (queued ch) initial)"
proof -
  obtain le rest s' where lp: "eventLoop en (chClosed ch) (queued ch) initial = (le, rest, s')"
    by (cases "eventLoop en (chClosed ch) (queued ch) initial")
  then show ?thesis by (cases le) (simp_all add: DisplayEvents_def Let_def)
qed

lemma DisplayEvents_afterLoop:
  "afterLoop (DisplayEvents en ch) = snd (snd (eventLoop en (chClosed ch) (queued ch) initial))"
proof -
  obtain le rest s' where lp: "eventLoop en (chClosed ch) (queued ch) initial = (le, rest, s')"
    by (cases "eventLoop en (chClosed ch) (queued ch) initial")
  then show ?thesis by (cases le) (simp_all add: DisplayEvents_def Let_def)
qed

lemma DisplayEvents_final:
  "final (DisplayEvents en ch)
     = (if loopEnd (DisplayEvents en ch) = Blocked then afterLoop (DisplayEvents en ch)
        else cleanup en (afterLoop (DisplayEvents en ch)))"
proof -
  obtain le rest s' where lp: "eventLoop en (chClosed ch) (queued ch) initial = (le, rest, s')"
    by (cases "eventLoop en (chClosed ch) (queued ch) initial")
  then show ?thesis by (cases le) (simp_all add: DisplayEvents_def Let_def)
qed

lemma DisplayEvents_Panics:
  "outcome (DisplayEvents en ch) = Panics \<Longrightarrow> loopEnd (DisplayEvents en ch) = Panicked"
proof -
  obtain le rest s' where lp: "eventLoop en (chClosed ch) (queued ch) initial = (le, rest, s')"
    by (cases "eventLoop en (chClosed ch) (queued ch) initial")
  then show "outcome (DisplayEvents en ch) = Panics \<Longrightarrow> loopEnd (DisplayEvents en ch) = Panicked"
    by (cases le) (simp_all add: DisplayEvents_def Let_def split: if_splits)
qed

lemma error_event_loop:
  assumes pre: "consumeAll en pre initial = Some s"
    and ty: "Type e = NewErrorDetected" and co: "concrete e = ErrorEvent c"
    and stop: "IsEnd e \<or> renderErr en (length (frame s)) (RedError (Value e)) \<noteq> None"
  shows "\<exists>s'. eventLoop en cl (pre @ e # post) initial = (Broke, post, s')
           \<and> exitCode s' = c
           \<and> displayErr s' = renderErr en (length (frame s)) (RedError (Value e))"
proof -
  have "eventLoop en cl (pre @ e # post) initial = eventLoop en cl (e # post) s"
    using pre by (rule eventLoop_consumed)
  moreover have "loopBody en e s = errorCase en e s"
    using ty by (simp add: loopBody_def)
  ultimately show ?thesis
    using stop by (simp add: errorCase_typed [OF co])
qed

section \<open>The barrier invariant\<close>

lemma outstanding_append: "outstanding n (xs @ ys) = outstanding (outstanding n xs) ys"
  by (induction n xs rule: outstanding.induct) simp_all

lemma waitsBeforeRender_append:
  "waitsBeforeRender n (xs @ ys)
     = (waitsBeforeRender n xs \<and> waitsBeforeRender (outstanding n xs) ys)"
  by (induction n xs rule: waitsBeforeRender.induct) simp_all

lemma barrierInv_initial: "barrierInv initial"
  by (simp add: barrierInv_def initial_def)

lemma barrierInv_step:
  assumes "barrierInv s" and "trace s' = trace s @ seg"
    and "waitsBeforeRender (wg s) seg" and "outstanding (wg s) seg = wg s'"
  shows "barrierInv s'"
  using assms by (simp add: barrierInv_def waitsBeforeRender_append outstanding_append)

lemma barrierInv_endOfIteration: "barrierInv (snd (endOfIteration e s)) = barrierInv s"
  by (simp add: endOfIteration_def)

lemma barrierInv_renderCase:
  "barrierInv s \<Longrightarrow> syncKind (Type e) \<longrightarrow> wg s = 0 \<Longrightarrow> barrierInv (renderCase en e t s)"
  by (rule barrierInv_step [where seg = "[AAppend, ARender (Type e) (length (frame s)) t
        (renderErr en (length (frame s)) t)]"])
     (simp_all add: renderCase_def Append_Render_def Let_def)

lemma wg_renderCase: "wg (renderCase en e t s) = wg s"
  by (simp add: renderCase_def Append_Render_def Let_def)

lemma barrierInv_wg_Wait: "barrierInv s \<Longrightarrow> barrierInv (wg_Wait s) \<and> wg (wg_Wait s) = 0"
  by (simp add: barrierInv_def wg_Wait_def waitsBeforeRender_append outstanding_append)

lemma barrierInv_fr_Append: "barrierInv s \<Longrightarrow> barrierInv (fr_Append s) \<and> wg (fr_Append s) = wg s"
  by (simp add: barrierInv_def fr_Append_def waitsBeforeRender_append outstanding_append)

lemma barrierInv_presentResults:
  "barrierInv s \<Longrightarrow> barrierInv (presentResults p s) \<and> wg (presentResults p s) = wg s"
  by (simp add: barrierInv_def presentResults_def Let_def waitsBeforeRender_append
      outstanding_append split: option.splits)

lemma barrierInv_handlerCase:
  "barrierInv s \<Longrightarrow> barrierInv (snd (handlerCase en e s))"
  by (simp add: barrierInv_def handlerCase_def Handler_def endOfIteration_def Let_def
      waitsBeforeRender_append outstanding_append)

lemma barrierInv_errorCase:
  "barrierInv s \<Longrightarrow> Type e = NewErrorDetected \<Longrightarrow> barrierInv (snd (errorCase en e s))"
proof -
  assume a: "barrierInv s" "Type e = NewErrorDetected"
  have "barrierInv (renderCase en e (RedError (Value e)) s)"
    using a by (intro barrierInv_renderCase) (simp_all add: syncKind_def)
  then have b: "barrierInv (renderCase en e (RedError (Value e)) s\<lparr>exitCode := c\<rparr>)" for c
    by (simp add: barrierInv_def)
  show ?thesis
    using b \<open>barrierInv (renderCase en e (RedError (Value e)) s)\<close>
    by (cases "concrete e") (simp_all add: errorCase_def Let_def barrierInv_endOfIteration)
qed

lemma barrierInv_finishedCase:
  assumes "barrierInv s"
  shows "barrierInv (snd (finishedCase en e s))"
proof (cases "Value e")
  case (PresenterVal p)
  let ?s1 = "wg_Wait s"
  let ?s2 = "fr_Append ?s1"
  let ?s3 = "renderCase en e (Bold (StringVal (Title p))) ?s2"
  let ?s4 = "fr_Append ?s3"
  let ?s5 = "presentResults p ?s4"
  have 1: "barrierInv ?s1" "wg ?s1 = 0" using assms barrierInv_wg_Wait by blast+
  have 2: "barrierInv ?s2" "wg ?s2 = 0" using 1 barrierInv_fr_Append [of ?s1] by simp_all
  have 3: "barrierInv ?s3" "wg ?s3 = 0"
    using 2 by (simp_all add: barrierInv_renderCase wg_renderCase)
  have 4: "barrierInv ?s4" "wg ?s4 = 0" using 3 barrierInv_fr_Append [of ?s3] by simp_all
  have 5: "barrierInv ?s5" "wg ?s5 = 0" using 4 barrierInv_presentResults [of ?s4 p] by simp_all
  have 6: "barrierInv (renderCase en e (Bold (StringVal (Footer p))) ?s5)"
    using 5 by (simp add: barrierInv_renderCase)
  show ?thesis
    using 5 6 by (simp add: finishedCase_def PresenterVal Let_def barrierInv_endOfIteration)
next
  case (StringVal x)
  then show ?thesis using assms barrierInv_wg_Wait [of s] by (simp add: finishedCase_def Let_def)
next
  case NilVal
  then show ?thesis using assms barrierInv_wg_Wait [of s] by (simp add: finishedCase_def Let_def)
qed

lemma barrierInv_body:
  assumes "barrierInv s"
  shows "barrierInv (snd (loopBody en e s))"
proof (cases "Type e")
  case NewVersionAvailable
  then show ?thesis
    using assms by (simp add: loopBody_def barrierInv_endOfIteration barrierInv_renderCase syncKind_def)
next
  case NewMessageDetected
  then show ?thesis
    using barrierInv_wg_Wait [OF assms]
    by (simp add: loopBody_def barrierInv_endOfIteration barrierInv_renderCase)
next
  case ValidateFinishedSuccessfully
  then show ?thesis
    using barrierInv_wg_Wait [OF assms]
    by (simp add: loopBody_def barrierInv_endOfIteration barrierInv_renderCase)
next
  case NewErrorDetected
  then show ?thesis using assms by (simp add: loopBody_def barrierInv_errorCase)
qed (simp_all add: loopBody_def assms barrierInv_handlerCase barrierInv_finishedCase)

lemma barrierInv_loop:
  "barrierInv s \<Longrightarrow> barrierInv (snd (snd (eventLoop en cl es s)))"
proof (induction es arbitrary: s)
  case Nil
  then show ?case by simp
next
  case (Cons e es)
  obtain f s' where fs: "loopBody en e s = (f, s')" by (cases "loopBody en e s")
  with barrierInv_body [OF Cons.prems, of en e] have "barrierInv s'" by simp
  with Cons.IH fs show ?case by (cases f) simp_all
qed

lemma barrierInv_cleanup: "barrierInv s \<Longrightarrow> barrierInv (cleanup en s)"
  by (simp add: barrierInv_def cleanup_def fr_Append_def Let_def waitsBeforeRender_append
      outstanding_append split: option.splits)

section \<open>Runs without failures\<close>

lemma calm_exitCode_update [simp]: "calm (s\<lparr>exitCode := c\<rparr>) = calm s"
  by (simp add: calm_def)

lemma calm_renderCase:
  "\<forall>i t. renderErr en i t = None \<Longrightarrow> calm s \<Longrightarrow> calm (renderCase en e t s)"
  by (simp add: calm_def renderCase_def Append_Render_def Let_def)

lemma calm_wg_Wait: "calm s \<Longrightarrow> calm (wg_Wait s)"
  by (simp add: calm_def wg_Wait_def)

lemma calm_fr_Append: "calm s \<Longrightarrow> calm (fr_Append s)"
  by (simp add: calm_def fr_Append_def)

lemma calm_endOfIteration:
  "calm s \<Longrightarrow> endOfIteration e s = (if IsEnd e then Break else Next, s)"
  by (simp add: calm_def endOfIteration_def)

lemma calm_handlerCase:
  "\<forall>k i v. handlerErr en k i v = None \<Longrightarrow> calm s \<Longrightarrow>
   fst (handlerCase en e s) = (if IsEnd e then Break else Next) \<and> calm (snd (handlerCase en e s))"
  by (simp add: calm_def handlerCase_def Handler_def endOfIteration_def Let_def)

lemma calm_finishedCase:
  assumes "\<forall>i t. renderErr en i t = None" and "calm s"
    and "Value e = PresenterVal p" and "Present p = None"
  shows "fst (finishedCase en e s) = (if IsEnd e then Break else Next)
     \<and> calm (snd (finishedCase en e s))"
proof -
  let ?s4 = "fr_Append (renderCase en e (Bold (StringVal (Title p))) (fr_Append (wg_Wait s)))"
  have 4: "calm ?s4"
    using assms(1,2) by (simp add: calm_fr_Append calm_renderCase calm_wg_Wait)
  then have 5: "calm (presentResults p ?s4)"
    using assms(4) by (simp add: calm_def presentResults_def Let_def)
  then have 6: "calm (renderCase en e (Bold (StringVal (Footer p))) (presentResults p ?s4))"
    using assms(1) by (simp add: calm_renderCase)
  show ?thesis
    using 5 6 by (simp add: finishedCase_def assms(3) Let_def calm_endOfIteration)
qed

lemma calm_body:
  assumes r: "\<forall>i t. renderErr en i t = None" and h: "\<forall>k i v. handlerErr en k i v = None"
    and q: "quiet e" and c: "calm s"
  shows "fst (loopBody en e s)
           = (if IsEnd e \<and> \<not> ignoredKind (Type e) then Break else Next)
     \<and> calm (snd (loopBody en e s))"
proof (cases "Type e")
  case NewVersionAvailable
  then show ?thesis
    using calm_renderCase [OF r c]
    by (simp add: loopBody_def ignoredKind_def calm_endOfIteration)
next
  case NewMessageDetected
  then show ?thesis
    using calm_renderCase [OF r calm_wg_Wait [OF c]]
    by (simp add: loopBody_def ignoredKind_def calm_endOfIteration)
next
  case ValidateFinishedSuccessfully
  then show ?thesis
    using calm_renderCase [OF r calm_wg_Wait [OF c]]
    by (simp add: loopBody_def ignoredKind_def calm_endOfIteration)
next
  case NewErrorDetected
  then show ?thesis using q by (simp add: quiet_def)
next
  case ScanFinished
  then obtain p where "Value e = PresenterVal p" "Present p = None"
    using q by (cases "Value e") (simp_all add: quiet_def finishedKind_def presentsWithoutError_def)
  from calm_finishedCase [OF r c this] ScanFinished show ?thesis
    by (simp add: loopBody_def ignoredKind_def)
next
  case ValidateFinishedWithViolations
  then obtain p where "Value e = PresenterVal p" "Present p = None"
    using q by (cases "Value e") (simp_all add: quiet_def finishedKind_def presentsWithoutError_def)
  from calm_finishedCase [OF r c this] ValidateFinishedWithViolations show ?thesis
    by (simp add: loopBody_def ignoredKind_def)
qed (simp_all add: loopBody_def ignoredKind_def c calm_handlerCase [OF h c])

lemma calm_loop:
  assumes r: "\<forall>i t. renderErr en i t = None" and h: "\<forall>k i v. handlerErr en k i v = None"
  shows "\<forall>e\<in>set es. quiet e \<Longrightarrow> calm s \<Longrightarrow>
     calm (snd (snd (eventLoop en cl es s)))
     \<and> exitCode (snd (snd (eventLoop en cl es s))) = exitCode s
     \<and> ((\<exists>e\<in>set es. IsEnd e \<and> \<not> ignoredKind (Type e)) \<longrightarrow>
          fst (eventLoop en cl es s) = Broke)"
proof (induction es arbitrary: s)
  case Nil
  then show ?case by simp
next
  case (Cons e es)
  have q: "quiet e" using Cons.prems by simp
  obtain f s' where fs: "loopBody en e s = (f, s')" by (cases "loopBody en e s")
  with calm_body [OF r h q Cons.prems(2)]
  have f: "f = (if IsEnd e \<and> \<not> ignoredKind (Type e) then Break else Next)" and c': "calm s'"
    by simp_all
  have x: "exitCode s' = exitCode s"
    using body_exitCode [of e en s] q fs by (simp add: quiet_def)
  show ?case
  proof (cases "IsEnd e \<and> \<not> ignoredKind (Type e)")
    case True
    with f fs c' x show ?thesis by simp
  next
    case False
    with f have "f = Next" by simp
    with Cons.IH [OF _ c'] Cons.prems(1) fs x False show ?thesis by auto
  qed
qed

section \<open>The claims\<close>

text \<open>
  Claim C1, as stated, fails: on the closed channel \<open>twoErrors\<close> the first event is an
  error-detected event carrying 74 whose terminal flag is unset and whose render succeeds;
  the loop goes on, receives the second event, and the process exits with code 3.
\<close>

theorem C1_error_event_not_always_last:
  "Type (hd (queued twoErrors)) = NewErrorDetected
   \<and> concrete (hd (queued twoErrors)) = ErrorEvent 74
   \<and> \<not> IsEnd (hd (queued twoErrors))
   \<and> unconsumed (DisplayEvents envOk twoErrors) = []
   \<and> outcome (DisplayEvents envOk twoErrors) = Exited 3"
  by (simp add: twoErrors_def fixture_defs run_defs)

text \<open>
  Claim C1, amended: if the loop reaches an error-detected event carrying exit code
  \<open>c > 0\<close> (no earlier event stopped it) and that event is terminal or its render fails,
  the loop stops consuming events at that event; if its render succeeds, the final process
  exit code equals \<open>c\<close>.
\<close>

theorem C1_error_event_stops_loop:
  assumes "consumeAll en pre initial = Some s"
    and "Type e = NewErrorDetected" and "concrete e = ErrorEvent c" and "c > 0"
    and "IsEnd e \<or> renderErr en (length (frame s)) (RedError (Value e)) \<noteq> None"
  shows "unconsumed (DisplayEvents en \<lparr>queued = pre @ e # post, chClosed = cl\<rparr>) = post
    \<and> loopEnd (DisplayEvents en \<lparr>queued = pre @ e # post, chClosed = cl\<rparr>) = Broke
    \<and> (renderErr en (length (frame s)) (RedError (Value e)) = None \<longrightarrow>
         outcome (DisplayEvents en \<lparr>queued = pre @ e # post, chClosed = cl\<rparr>) = Exited c)"
proof -
  obtain s' where lp: "eventLoop en cl (pre @ e # post) initial = (Broke, post, s')"
    and ec: "exitCode s' = c"
    and de: "displayErr s' = renderErr en (length (frame s)) (RedError (Value e))"
    using error_event_loop [OF assms(1-3) assms(5)] by blast
  have r: "DisplayEvents en \<lparr>queued = pre @ e # post, chClosed = cl\<rparr> =
     \<lparr>outcome = (if exitCode (cleanup en s') > 0 then Exited (exitCode (cleanup en s'))
                  else if Broke = Panicked then Panics else Returned),
      loopEnd = Broke, unconsumed = post, afterLoop = s', final = cleanup en s'\<rparr>"
    by (rule DisplayEvents_not_blocked) (simp_all add: lp)
  have "renderErr en (length (frame s)) (RedError (Value e)) = None \<Longrightarrow>
        exitCode (cleanup en s') = c"
    using de ec by (simp add: cleanup_exitCode)
  with r \<open>c > 0\<close> show ?thesis by simp
qed

theorem C1_error_event_stops_loop_witness:
  "consumeAll envOk [baseEvent ScanStarted (StringVal ''img'') False] initial \<noteq> None
   \<and> Type (errorEvent (StringVal ''disk full'') 74 True) = NewErrorDetected
   \<and> concrete (errorEvent (StringVal ''disk full'') 74 True) = ErrorEvent 74
   \<and> IsEnd (errorEvent (StringVal ''disk full'') 74 True)
   \<and> unconsumed (DisplayEvents envOk
        \<lparr>queued = [baseEvent ScanStarted (StringVal ''img'') False]
                   @ errorEvent (StringVal ''disk full'') 74 True
                   # [baseEvent NewVersionAvailable (StringVal ''v2'') True],
         chClosed = False\<rparr>) = [baseEvent NewVersionAvailable (StringVal ''v2'') True]
   \<and> outcome (DisplayEvents envOk
        \<lparr>queued = [baseEvent ScanStarted (StringVal ''img'') False]
                   @ errorEvent (StringVal ''disk full'') 74 True
                   # [baseEvent NewVersionAvailable (StringVal ''v2'') True],
         chClosed = False\<rparr>) = Exited 74"
proof -
  have c: "consumeAll envOk [baseEvent ScanStarted (StringVal ''img'') False] initial =
     Some (snd (loopBody envOk (baseEvent ScanStarted (StringVal ''img'') False) initial))"
    by (simp add: fixture_defs initial_def body_defs Let_def)
  show ?thesis
    using C1_error_event_stops_loop [OF c, of "errorEvent (StringVal ''disk full'') 74 True" 74
        "[baseEvent NewVersionAvailable (StringVal ''v2'') True]" False]
    by (simp add: fixture_defs initial_def body_defs Let_def)
qed

text \<open>
  Claim C2, as stated, fails twice. On \<open>terminalIgnoredOpen\<close> the stream ends in a terminal
  event of an ignored kind: the loop skips it without looking at its flag, waits for a
  further event on the open channel, and the call never reaches its cleanup. On
  \<open>untypedResult\<close> the terminal scan-finished event carries a string: the assertion to a
  presenter panics, and the call does not return normally. Neither stream has an
  error-detected event, and no render fails.
\<close>

theorem C2_terminal_event_without_normal_return:
  "IsEnd (last (queued terminalIgnoredOpen))
   \<and> outcome (DisplayEvents envOk terminalIgnoredOpen) = BlocksForever
   \<and> trace (final (DisplayEvents envOk terminalIgnoredOpen)) = [AHideCursor]
   \<and> cursorHidden (final (DisplayEvents envOk terminalIgnoredOpen))
   \<and> IsEnd (last (queued untypedResult))
   \<and> outcome (DisplayEvents envOk untypedResult) = Panics"
  by (simp add: terminalIgnoredOpen_def untypedResult_def fixture_defs run_defs)

text \<open>
  Claim C2, amended: for every event stream ending in a terminal event of a kind the loop
  handles, containing no error-detected event, in which every scan-finished or
  validate-with-violations event carries a presenter, and in which every render write
  succeeds (frame renders, sub-task registrations and the presenters' output),
  \<open>DisplayEvents\<close> runs the cleanup step exactly once, appending one final blank line and
  restoring cursor visibility, and returns normally with exit code 0.
\<close>

theorem C2_clean_run_returns_normally:
  assumes "\<forall>i t. renderErr en i t = None" and "\<forall>k i v. handlerErr en k i v = None"
    and "queued ch = es @ [t]" and "IsEnd t" and "\<not> ignoredKind (Type t)"
    and "\<forall>e\<in>set (queued ch). Type e \<noteq> NewErrorDetected"
    and "\<forall>e\<in>set (queued ch). finishedKind (Type e) \<longrightarrow> presentsWithoutError e"
  shows "outcome (DisplayEvents en ch) = Returned
    \<and> exitCode (final (DisplayEvents en ch)) = 0
    \<and> displayErr (final (DisplayEvents en ch)) = None
    \<and> \<not> cursorHidden (final (DisplayEvents en ch))
    \<and> frame (final (DisplayEvents en ch)) = frame (afterLoop (DisplayEvents en ch)) @ [None]
    \<and> trace (final (DisplayEvents en ch))
        = trace (afterLoop (DisplayEvents en ch)) @ [AAppend, AShowCursor]
    \<and> AShowCursor \<notin> set (trace (afterLoop (DisplayEvents en ch)))"
proof -
  obtain le rest s where lp: "eventLoop en (chClosed ch) (queued ch) initial = (le, rest, s)"
    by (cases "eventLoop en (chClosed ch) (queued ch) initial")
  have q: "\<forall>e\<in>set (queued ch). quiet e"
    using assms(6,7) by (simp add: quiet_def)
  have t: "\<exists>e\<in>set (queued ch). IsEnd e \<and> \<not> ignoredKind (Type e)"
    using assms(3-5) by auto
  have c0: "calm initial" by (simp add: calm_def initial_def)
  from calm_loop [OF assms(1,2) q c0, of "chClosed ch"] lp t
  have s: "calm s" "exitCode s = 0" "le = Broke" by (simp_all add: initial_def)
  have r: "DisplayEvents en ch =
     \<lparr>outcome = (if exitCode (cleanup en s) > 0 then Exited (exitCode (cleanup en s))
                  else if le = Panicked then Panics else Returned),
      loopEnd = le, unconsumed = rest, afterLoop = s, final = cleanup en s\<rparr>"
    using lp s(3) by (intro DisplayEvents_not_blocked) simp_all
  have cl: "cleanup en s = s\<lparr>frame := frame s @ [None], cursorHidden := False,
                              trace := trace s @ [AAppend, AShowCursor]\<rparr>"
    using s(1) by (simp add: calm_def cleanup_def fr_Append_def Let_def)
  show ?thesis using s by (simp add: r cl calm_def)
qed

theorem C2_clean_run_returns_normally_witness:
  "(\<forall>i t. renderErr envOk i t = None) \<and> (\<forall>k i v. handlerErr envOk k i v = None)
   \<and> IsEnd (last (queued scenario)) \<and> \<not> ignoredKind (Type (last (queued scenario)))
   \<and> list_all (\<lambda>e. Type e \<noteq> NewErrorDetected) (queued scenario)
   \<and> presentsWithoutError (last (queued scenario))
   \<and> outcome (DisplayEvents envOk scenario) = Returned
   \<and> exitCode (final (DisplayEvents envOk scenario)) = 0
   \<and> \<not> cursorHidden (final (DisplayEvents envOk scenario))"
proof -
  have 1: "\<forall>i t. renderErr envOk i t = None" by (simp add: envOk_def)
  have 2: "\<forall>k i v. handlerErr envOk k i v = None" by (simp add: envOk_def)
  have 3: "queued scenario = [baseEvent ScanStarted (StringVal ''img'') False,
                         baseEvent NewMessageDetected (StringVal ''found 3 issues'') False]
                        @ [baseEvent ScanFinished
                             (PresenterVal \<lparr>Title = ''Results'', Present = None, Footer = ''''\<rparr>)
                             True]"
    by (simp add: scenario_def)
  have 4: "IsEnd (baseEvent ScanFinished
                   (PresenterVal \<lparr>Title = ''Results'', Present = None, Footer = ''''\<rparr>) True)"
    by (simp add: baseEvent_def)
  have 5: "\<not> ignoredKind (Type (baseEvent ScanFinished
                   (PresenterVal \<lparr>Title = ''Results'', Present = None, Footer = ''''\<rparr>) True))"
    by (simp add: baseEvent_def ignoredKind_def)
  have 6: "\<forall>e\<in>set (queued scenario). Type e \<noteq> NewErrorDetected"
    by (simp add: scenario_def baseEvent_def)
  have 7: "\<forall>e\<in>set (queued scenario). finishedKind (Type e) \<longrightarrow> presentsWithoutError e"
    by (simp add: scenario_def baseEvent_def finishedKind_def presentsWithoutError_def)
  have 8: "IsEnd (last (queued scenario)) \<and> \<not> ignoredKind (Type (last (queued scenario)))
      \<and> presentsWithoutError (last (queued scenario))"
    by (simp add: scenario_def baseEvent_def ignoredKind_def presentsWithoutError_def)
  show ?thesis
    using C2_clean_run_returns_normally [OF 1 2 3 4 5 6 7] 1 2 6 8 by (simp add: list_all_iff)
qed

text \<open>
  Claim C3: for every event of a synchronized kind (message-detected, validate-succeeded,
  scan-finished, validate-with-violations) the first thing the loop does is to wait on the
  completion barrier, and in the trace of a whole call every render made for such an event
  happens when no sub-task registered earlier is still outstanding.
\<close>

theorem C3_synchronized_render_after_wait:
  "waitsBeforeRender 0 (trace (final (DisplayEvents en ch)))
   \<and> (syncKind (Type e) \<longrightarrow>
        take (Suc (length (trace s))) (trace (snd (loopBody en e s))) = trace s @ [AWait (wg s)])"
proof -
  have "barrierInv (afterLoop (DisplayEvents en ch))"
    by (simp add: DisplayEvents_afterLoop barrierInv_loop barrierInv_initial)
  then have "barrierInv (final (DisplayEvents en ch))"
    by (simp add: DisplayEvents_final barrierInv_cleanup)
  then show ?thesis by (simp add: barrierInv_def sync_body_waits_first)
qed

theorem C3_synchronized_render_after_wait_witness:
  "waitsBeforeRender 0 (trace (final (DisplayEvents envOk
      \<lparr>queued = [baseEvent ScanStarted (StringVal ''img'') False,
                 baseEvent NewMessageDetected (StringVal ''found 3 issues'') True],
       chClosed = True\<rparr>)))
   \<and> trace (final (DisplayEvents envOk
      \<lparr>queued = [baseEvent ScanStarted (StringVal ''img'') False,
                 baseEvent NewMessageDetected (StringVal ''found 3 issues'') True],
       chClosed = True\<rparr>))
     = [AHideCursor, AAppend, AHandler ScanStarted 0 (StringVal ''img'') None, AWait 1,
        AAppend, ARender NewMessageDetected 1 (Bold (StringVal ''found 3 issues'')) None,
        AAppend, AShowCursor]
   \<and> syncKind (Type (baseEvent NewMessageDetected (StringVal ''found 3 issues'') True))
   \<and> \<not> waitsBeforeRender 0
        [AHandler ScanStarted 0 (StringVal ''img'') None,
         ARender NewMessageDetected 1 (Bold (StringVal ''found 3 issues'')) None]"
  using C3_synchronized_render_after_wait [of envOk
      "\<lparr>queued = [baseEvent ScanStarted (StringVal ''img'') False,
                 baseEvent NewMessageDetected (StringVal ''found 3 issues'') True],
       chClosed = True\<rparr>"
      "baseEvent NewMessageDetected (StringVal ''found 3 issues'') True" initial]
  by (simp add: fixture_defs run_defs syncKind_def)

text \<open>
  Claim C4, as stated, fails: on \<open>failingErrorRender\<close> the render of the error event fails,
  the loop ends with the render failure pending and the exit code 74 of the event, and the
  cleanup replaces that code by the exit code of the display error: the process exits
  with 1, not 74.
\<close>

theorem C4_captured_exit_code_overwritten:
  "displayErr (afterLoop (DisplayEvents envBrokenPipe failingErrorRender)) = Some ''broken pipe''
   \<and> exitCode (afterLoop (DisplayEvents envBrokenPipe failingErrorRender)) = 74
   \<and> outcome (DisplayEvents envBrokenPipe failingErrorRender) = Exited 1"
  by (simp add: failingErrorRender_def fixture_defs run_defs)

text \<open>
  Claim C4, amended: if the render performed while handling an error-detected event
  itself fails, the loop aborts at that event with the render failure as the pending
  display error and the exit code of the event as the pending exit code; the cleanup then
  replaces the pending exit code by the exit code of the display error built from the
  render failure, and that code, not the one captured from the event, is the final exit
  code (the process exits with it when it is positive).
\<close>

theorem C4_error_render_failure_exit_code:
  assumes "consumeAll en pre initial = Some s"
    and "Type e = NewErrorDetected" and "concrete e = ErrorEvent c"
    and "renderErr en (length (frame s)) (RedError (Value e)) = Some er"
  shows "loopEnd (DisplayEvents en \<lparr>queued = pre @ e # post, chClosed = cl\<rparr>) = Broke
    \<and> unconsumed (DisplayEvents en \<lparr>queued = pre @ e # post, chClosed = cl\<rparr>) = post
    \<and> displayErr (afterLoop (DisplayEvents en \<lparr>queued = pre @ e # post, chClosed = cl\<rparr>)) = Some er
    \<and> exitCode (afterLoop (DisplayEvents en \<lparr>queued = pre @ e # post, chClosed = cl\<rparr>)) = c
    \<and> displayErr (final (DisplayEvents en \<lparr>queued = pre @ e # post, chClosed = cl\<rparr>)) = Some er
    \<and> exitCode (final (DisplayEvents en \<lparr>queued = pre @ e # post, chClosed = cl\<rparr>))
        = displayExitCode en er
    \<and> outcome (DisplayEvents en \<lparr>queued = pre @ e # post, chClosed = cl\<rparr>)
        = (if displayExitCode en er > 0 then Exited (displayExitCode en er) else Returned)"
proof -
  have stop: "IsEnd e \<or> renderErr en (length (frame s)) (RedError (Value e)) \<noteq> None"
    using assms(4) by simp
  obtain s' where lp: "eventLoop en cl (pre @ e # post) initial = (Broke, post, s')"
    and ec: "exitCode s' = c"
    and de: "displayErr s' = Some er"
    using error_event_loop [OF assms(1-3) stop] assms(4) by auto
  have r: "DisplayEvents en \<lparr>queued = pre @ e # post, chClosed = cl\<rparr> =
     \<lparr>outcome = (if exitCode (cleanup en s') > 0 then Exited (exitCode (cleanup en s'))
                  else if Broke = Panicked then Panics else Returned),
      loopEnd = Broke, unconsumed = post, afterLoop = s', final = cleanup en s'\<rparr>"
    by (rule DisplayEvents_not_blocked) (simp_all add: lp)
  show ?thesis
    using cleanup_pending [OF de, of en] ec de by (simp add: r)
qed

theorem C4_error_render_failure_exit_code_witness:
  "consumeAll envBrokenPipe [] initial = Some initial
   \<and> Type (errorEvent (StringVal ''disk full'') 74 False) = NewErrorDetected
   \<and> concrete (errorEvent (StringVal ''disk full'') 74 False) = ErrorEvent 74
   \<and> renderErr envBrokenPipe (length (frame initial)) (RedError (StringVal ''disk full''))
       = Some ''broken pipe''
   \<and> exitCode (afterLoop (DisplayEvents envBrokenPipe
        \<lparr>queued = [] @ errorEvent (StringVal ''disk full'') 74 False # [], chClosed = False\<rparr>)) = 74
   \<and> outcome (DisplayEvents envBrokenPipe
        \<lparr>queued = [] @ errorEvent (StringVal ''disk full'') 74 False # [], chClosed = False\<rparr>)
       = Exited 1"
proof -
  have c: "consumeAll envBrokenPipe [] initial = Some initial" by simp
  show ?thesis
    using C4_error_render_failure_exit_code [OF c,
        of "errorEvent (StringVal ''disk full'') 74 False" 74 "''broken pipe''" "[]" False]
    by (simp add: fixture_defs initial_def)
qed

text \<open>
  Claim C5, as stated, fails: on \<open>terminalIgnored\<close> the first event is of an ignored kind
  and has its terminal flag set; the loop skips it and goes on to receive and render the
  event after it.
\<close>

theorem C5_terminal_ignored_event_skipped:
  "IsEnd (hd (queued terminalIgnored))
   \<and> unconsumed (DisplayEvents envOk terminalIgnored) = []
   \<and> frame (afterLoop (DisplayEvents envOk terminalIgnored)) = [Some (Magenta (StringVal ''v2''))]"
  by (simp add: terminalIgnored_def fixture_defs run_defs)

text \<open>
  Claim C5, amended: for every dequeued event of a kind the loop handles, if the event's
  terminal flag is set, the loop stops consuming further events after handling it; events
  of unrecognized or explicitly ignored kinds are skipped with no render and no state
  change, and the loop goes on to the next event whatever their terminal flag.
\<close>

theorem C5_terminal_flag_stops_handled_kinds:
  "(IsEnd e \<and> \<not> ignoredKind (Type e) \<longrightarrow>
      fst (eventLoop en cl (e # es) s) \<in> {Broke, Panicked}
      \<and> fst (snd (eventLoop en cl (e # es) s)) = es)
   \<and> (ignoredKind (Type e) \<longrightarrow> loopBody en e s = (Next, s)
        \<and> eventLoop en cl (e # es) s = eventLoop en cl es s)"
proof -
  have "fst (eventLoop en cl (e # es) s) \<in> {Broke, Panicked}
      \<and> fst (snd (eventLoop en cl (e # es) s)) = es"
    if "IsEnd e" "\<not> ignoredKind (Type e)"
  proof -
    obtain f s' where fs: "loopBody en e s = (f, s')" by (cases "loopBody en e s")
    with terminal_body [OF that, of en s] have "f \<noteq> Next" by simp
    with fs show ?thesis by (cases f) simp_all
  qed
  then show ?thesis by (simp add: ignored_body)
qed

theorem C5_terminal_flag_stops_handled_kinds_witness:
  "IsEnd (baseEvent NewMessageDetected (StringVal ''done'') True)
   \<and> \<not> ignoredKind (Type (baseEvent NewMessageDetected (StringVal ''done'') True))
   \<and> fst (snd (eventLoop envOk False
        (baseEvent NewMessageDetected (StringVal ''done'') True
         # [baseEvent NewVersionAvailable (StringVal ''v2'') False]) initial))
       = [baseEvent NewVersionAvailable (StringVal ''v2'') False]
   \<and> ignoredKind (Type (baseEvent ReadLayer NilVal True))
   \<and> loopBody envOk (baseEvent ReadLayer NilVal True) initial = (Next, initial)"
  using C5_terminal_flag_stops_handled_kinds
      [of "baseEvent NewMessageDetected (StringVal ''done'') True" envOk False
        "[baseEvent NewVersionAvailable (StringVal ''v2'') False]" initial]
    C5_terminal_flag_stops_handled_kinds [of "baseEvent ReadLayer NilVal True" envOk False "[]" initial]
  by (simp add: fixture_defs ignoredKind_def)

text \<open>
  Claim C6, as stated, fails: on \<open>failingRegistration\<close> the handler of the pull event
  returns an error; the loop breaks at that event and never receives the event after it.
\<close>

theorem C6_registration_error_aborts:
  "loopEnd (DisplayEvents envHandlerFails failingRegistration) = Broke
   \<and> unconsumed (DisplayEvents envHandlerFails failingRegistration)
       = [baseEvent NewVersionAvailable (StringVal ''v2'') True]
   \<and> trace (afterLoop (DisplayEvents envHandlerFails failingRegistration))
       = [AHideCursor, AAppend, AHandler PullDockerImage 0 (StringVal ''img'') (Some ''broken pipe'')]"
  by (simp add: failingRegistration_def fixture_defs run_defs)

text \<open>
  Claim C6, amended: when the registration call for a delegated sub-task kind
  (pull/copy/read/fetch-image, cataloger-started, scan-started) returns an error, that
  error is recorded as the pending display error and the loop stops at that event: it
  consumes no further event, and the error is still pending after the cleanup.
\<close>

theorem C6_registration_error_stops_loop:
  assumes "consumeAll en pre initial = Some s"
    and "handlerKind (Type e)"
    and "handlerErr en (Type e) (length (frame s)) (Value e) = Some er"
  shows "loopEnd (DisplayEvents en \<lparr>queued = pre @ e # post, chClosed = cl\<rparr>) = Broke
    \<and> unconsumed (DisplayEvents en \<lparr>queued = pre @ e # post, chClosed = cl\<rparr>) = post
    \<and> displayErr (afterLoop (DisplayEvents en \<lparr>queued = pre @ e # post, chClosed = cl\<rparr>)) = Some er
    \<and> displayErr (final (DisplayEvents en \<lparr>queued = pre @ e # post, chClosed = cl\<rparr>)) = Some er"
proof -
  have "eventLoop en cl (pre @ e # post) initial = eventLoop en cl (e # post) s"
    using assms(1) by (rule eventLoop_consumed)
  moreover have "\<exists>s'. loopBody en e s = (Break, s') \<and> displayErr s' = Some er"
    using assms(3)
    by (simp add: handler_body [OF assms(2)] handlerCase_def Handler_def endOfIteration_def Let_def)
  ultimately obtain s' where lp: "eventLoop en cl (pre @ e # post) initial = (Broke, post, s')"
    and de: "displayErr s' = Some er" by auto
  have r: "DisplayEvents en \<lparr>queued = pre @ e # post, chClosed = cl\<rparr> =
     \<lparr>outcome = (if exitCode (cleanup en s') > 0 then Exited (exitCode (cleanup en s'))
                  else if Broke = Panicked then Panics else Returned),
      loopEnd = Broke, unconsumed = post, afterLoop = s', final = cleanup en s'\<rparr>"
    by (rule DisplayEvents_not_blocked) (simp_all add: lp)
  show ?thesis using de by (simp add: r cleanup_displayErr)
qed

theorem C6_registration_error_stops_loop_witness:
  "consumeAll envHandlerFails [] initial = Some initial
   \<and> handlerKind (Type (baseEvent CopyImage (StringVal ''img'') False))
   \<and> handlerErr envHandlerFails CopyImage (length (frame initial)) (StringVal ''img'')
       = Some ''broken pipe''
   \<and> unconsumed (DisplayEvents envHandlerFails
        \<lparr>queued = [] @ baseEvent CopyImage (StringVal ''img'') False
                   # [baseEvent ReadImage (StringVal ''img'') False], chClosed = False\<rparr>)
       = [baseEvent ReadImage (StringVal ''img'') False]"
proof -
  have c: "consumeAll envHandlerFails [] initial = Some initial" by simp
  show ?thesis
    using C6_registration_error_stops_loop [OF c,
        of "baseEvent CopyImage (StringVal ''img'') False" "''broken pipe''"
        "[baseEvent ReadImage (StringVal ''img'') False]" False]
    by (simp add: fixture_defs initial_def handlerKind_def)
qed

text \<open>
  Claim C7 at the stream \<open>lostErrors\<close>: a terminal scan-finished event whose title render
  fails and whose presenter fails, followed in the same iteration by a footer render that
  succeeds. The footer's result is assigned to the display error unconditionally, so the
  two failures are gone when the cleanup runs: no display error is pending and the call
  returns normally.
\<close>

theorem C7_title_and_presenter_errors_lost:
  "trace (afterLoop (DisplayEvents envTitleFails lostErrors))
     = [AHideCursor, AWait 0, AAppend,
        AAppend, ARender ScanFinished 1 (Bold (StringVal ''Results'')) (Some ''broken pipe''),
        AAppend, APresent failingReport,
        AAppend, ARender ScanFinished 3 (Bold (StringVal ''3 issues'')) None]
   \<and> Present failingReport = Some ''stdout closed''
   \<and> displayErr (afterLoop (DisplayEvents envTitleFails lostErrors)) = None
   \<and> displayErr (final (DisplayEvents envTitleFails lostErrors)) = None
   \<and> outcome (DisplayEvents envTitleFails lostErrors) = Returned"
  by (simp add: lostErrors_def failingReport_def envTitleFails_def fixture_defs run_defs)

text \<open>
  Claim C8, as stated, fails: a scan-finished event whose value is a string, not a
  presenter, makes the assertion after the barrier wait panic. The iteration appends no
  line at all, neither title nor footer, and calls no presenter; the only effect after the
  hidden cursor is the wait, on the event alone and in the whole call on \<open>untypedResult\<close>.
\<close>

theorem C8_finished_event_without_presenter:
  "finishedKind (Type (baseEvent ScanFinished (StringVal ''report'') True))
   \<and> fst (loopBody envOk (baseEvent ScanFinished (StringVal ''report'') True) initial) = Panic
   \<and> trace (snd (loopBody envOk (baseEvent ScanFinished (StringVal ''report'') True) initial))
       = [AHideCursor, AWait 0]
   \<and> frame (snd (loopBody envOk (baseEvent ScanFinished (StringVal ''report'') True) initial)) = []
   \<and> trace (afterLoop (DisplayEvents envOk untypedResult)) = [AHideCursor, AWait 0]
   \<and> frame (afterLoop (DisplayEvents envOk untypedResult)) = []"
  by (simp add: untypedResult_def finishedKind_def fixture_defs run_defs)

text \<open>
  Claim C8, amended: for every scan-finished or validate-with-violations event whose value
  is a presenter, the loop, after the barrier wait and a blank line, appends a title line,
  appends a blank line, invokes the presenter's output exactly once, and then appends a
  footer line if and only if the presenter's footer text is non-empty.
\<close>

theorem C8_finished_event_output:
  assumes "finishedKind (Type e)" and "Value e = PresenterVal p"
  shows "trace (snd (loopBody en e s))
     = trace s
       @ [AWait (wg s), AAppend,
          AAppend, ARender (Type e) (Suc (length (frame s))) (Bold (StringVal (Title p)))
                     (renderErr en (Suc (length (frame s))) (Bold (StringVal (Title p)))),
          AAppend, APresent p]
       @ (if Footer p \<noteq> []
          then [AAppend, ARender (Type e) (length (frame s) + 3) (Bold (StringVal (Footer p)))
                     (renderErr en (length (frame s) + 3) (Bold (StringVal (Footer p))))]
          else [])
   \<and> length (frame (snd (loopBody en e s)))
     = length (frame s) + (if Footer p \<noteq> [] then 4 else 3)"
  using assms(2)
  by (simp add: finished_body [OF assms(1)] finishedCase_def presentResults_def renderCase_def
      Append_Render_def endOfIteration_def wg_Wait_def fr_Append_def Let_def eval_nat_numeral
      split: option.splits)

theorem C8_finished_event_output_witness:
  "finishedKind (Type (baseEvent ValidateFinishedWithViolations (PresenterVal failingReport) False))
   \<and> Value (baseEvent ValidateFinishedWithViolations (PresenterVal failingReport) False)
       = PresenterVal failingReport
   \<and> trace (snd (loopBody envOk
        (baseEvent ValidateFinishedWithViolations (PresenterVal failingReport) False) initial))
     = [AHideCursor, AWait 0, AAppend,
        AAppend, ARender ValidateFinishedWithViolations 1 (Bold (StringVal ''Results'')) None,
        AAppend, APresent failingReport,
        AAppend, ARender ValidateFinishedWithViolations 3 (Bold (StringVal ''3 issues'')) None]"
  using C8_finished_event_output
      [of "baseEvent ValidateFinishedWithViolations (PresenterVal failingReport) False"
        failingReport envOk initial]
  by (simp add: fixture_defs failingReport_def initial_def finishedKind_def)

text \<open>
  Claim C9: \<open>DisplayEvents\<close> never panics when every error-detected event is a
  \<open>*bus.ErrorEvent\<close> and every scan-finished or validate-with-violations event carries a
  presenter; an event that breaks either condition makes the iteration that handles it
  panic, and there is a stream breaking the first condition, and one breaking the second,
  on which the call panics.
\<close>

theorem C9_panic_iff_type_assertion_fails:
  "((\<forall>e\<in>set (queued ch). wellTyped e) \<longrightarrow>
      loopEnd (DisplayEvents en ch) \<noteq> Panicked \<and> outcome (DisplayEvents en ch) \<noteq> Panics)
   \<and> (\<not> wellTyped x \<longrightarrow> fst (loopBody en x s) = Panic)
   \<and> loopEnd (DisplayEvents envOk untypedError) = Panicked
   \<and> outcome (DisplayEvents envOk untypedError) = Panics
   \<and> loopEnd (DisplayEvents envOk untypedResult) = Panicked
   \<and> outcome (DisplayEvents envOk untypedResult) = Panics"
proof -
  have a: "loopEnd (DisplayEvents en ch) \<noteq> Panicked \<and> outcome (DisplayEvents en ch) \<noteq> Panics"
    if "\<forall>e\<in>set (queued ch). wellTyped e"
    using wellTyped_loop [OF that, of en "chClosed ch" initial] DisplayEvents_Panics [of en ch]
    by (auto simp add: DisplayEvents_loopEnd)
  have b: "loopEnd (DisplayEvents envOk untypedError) = Panicked
     \<and> outcome (DisplayEvents envOk untypedError) = Panics"
    by (simp add: untypedError_def fixture_defs run_defs)
  have c: "loopEnd (DisplayEvents envOk untypedResult) = Panicked
     \<and> outcome (DisplayEvents envOk untypedResult) = Panics"
    by (simp add: untypedResult_def fixture_defs run_defs)
  from a b c show ?thesis by (simp add: body_Panic)
qed

theorem C9_panic_iff_type_assertion_fails_witness:
  "list_all wellTyped (queued twoErrors)
   \<and> loopEnd (DisplayEvents envOk twoErrors) \<noteq> Panicked
   \<and> outcome (DisplayEvents envOk twoErrors) \<noteq> Panics
   \<and> \<not> wellTyped (baseEvent ScanFinished NilVal False)
   \<and> fst (loopBody envOk (baseEvent ScanFinished NilVal False) initial) = Panic"
  using C9_panic_iff_type_assertion_fails
      [of twoErrors envOk "baseEvent ScanFinished NilVal False" initial]
  by (simp add: twoErrors_def fixture_defs wellTyped_def finishedKind_def isErrorEvent_def
      hasPresenter_def)

text \<open>
  Claim C10: the pending exit code starts at 0; handling an event of any kind other than
  error-detected leaves it unchanged, so a loop that receives no error-detected event ends
  with the exit code it started with; after the loop only the cleanup runs, and it leaves
  the exit code unchanged unless a display error is pending.
\<close>

theorem C10_exit_code_frame:
  "exitCode initial = 0
   \<and> (Type e \<noteq> NewErrorDetected \<longrightarrow> exitCode (snd (loopBody en e s)) = exitCode s)
   \<and> ((\<forall>x\<in>set es. Type x \<noteq> NewErrorDetected) \<longrightarrow>
        exitCode (snd (snd (eventLoop en cl es s))) = exitCode s)
   \<and> (displayErr s = None \<longrightarrow> exitCode (cleanup en s) = exitCode s)
   \<and> final (DisplayEvents en ch)
       = (if loopEnd (DisplayEvents en ch) = Blocked then afterLoop (DisplayEvents en ch)
          else cleanup en (afterLoop (DisplayEvents en ch)))"
  using DisplayEvents_final [of en ch]
  by (simp add: body_exitCode loop_exitCode cleanup_exitCode) (simp add: initial_def)

theorem C10_exit_code_frame_witness:
  "Type (baseEvent ScanStarted (StringVal ''img'') True) \<noteq> NewErrorDetected
   \<and> exitCode (snd (loopBody envBrokenPipe (baseEvent ScanStarted (StringVal ''img'') True) initial)) = 0
   \<and> list_all (\<lambda>x. Type x \<noteq> NewErrorDetected)
        [baseEvent NewMessageDetected (StringVal ''m'') False]
   \<and> exitCode (snd (snd (eventLoop envBrokenPipe True
        [baseEvent NewMessageDetected (StringVal ''m'') False] initial))) = 0
   \<and> displayErr initial = None
   \<and> exitCode (cleanup envBrokenPipe initial) = 0"
  using C10_exit_code_frame [of "baseEvent ScanStarted (StringVal ''img'') True" envBrokenPipe initial
      "[baseEvent NewMessageDetected (StringVal ''m'') False]" True]
  by (simp add: fixture_defs initial_def)

end
